theory Spec2Isabelle
  imports Main "HOL-Library.AList"
begin

section \<open>Python values\<close>

text \<open>
  The client passes dynamically typed values around (\<open>data: Any\<close>, \<open>details: Any\<close>,
  the result of \<open>response.json()\<close>, the values of a raw configuration mapping).
  They are modelled by one datatype of Python values. A dictionary is an association
  list whose first binding of a key is the one looked up; \<open>PyFloat m e\<close> is the float
  read from the decimal literal \<open>m\<close>e\<open>e\<close>.
\<close>

datatype pyval =
    PyNone
  | PyBool bool
  | PyInt int
  | PyFloat int int
  | PyStr string
  | PyList "pyval list"
  | PyDict "(string \<times> pyval) list"

section \<open>Strings\<close>

text \<open>Python's \<open>str(n)\<close> for an integer, as the f-string of the default message uses it.\<close>

definition digit_char :: "nat \<Rightarrow> char" where
  "digit_char d = char_of (48 + d)"

fun str_nat :: "nat \<Rightarrow> string" where
  "str_nat n = (if n < 10 then [digit_char n] else str_nat (n div 10) @ [digit_char (n mod 10)])"

declare str_nat.simps [simp del]

definition str_int :: "int \<Rightarrow> string" where
  "str_int i = (if i < 0 then CHR ''-'' # str_nat (nat (- i)) else str_nat (nat i))"

definition is_ascii_alpha :: "char \<Rightarrow> bool" where
  "is_ascii_alpha c \<longleftrightarrow>
     (let n = (of_char c :: nat) in (65 \<le> n \<and> n \<le> 90) \<or> (97 \<le> n \<and> n \<le> 122))"

definition lower_char :: "char \<Rightarrow> char" where
  "lower_char c = (let n = (of_char c :: nat) in if 65 \<le> n \<and> n \<le> 90 then char_of (n + 32) else c)"

definition upper_char :: "char \<Rightarrow> char" where
  "upper_char c = (let n = (of_char c :: nat) in if 97 \<le> n \<and> n \<le> 122 then char_of (n - 32) else c)"

text \<open>\<open>str.lower\<close> and \<open>str.upper\<close>, on the ASCII letters: \<open>urlsplit\<close> lowers a scheme, which
  is ASCII, and the client raises the method name for its debug line.\<close>

definition lower :: "string \<Rightarrow> string" where
  "lower s = map lower_char s"

definition upper :: "string \<Rightarrow> string" where
  "upper s = map upper_char s"

text \<open>\<open>s.split(d)\<close> and \<open>d.join(parts)\<close> for a one-character separator.\<close>

fun split_on :: "char \<Rightarrow> string \<Rightarrow> string list" where
  "split_on d [] = [[]]"
| "split_on d (c # cs) =
     (if c = d then [] # split_on d cs
      else (case split_on d cs of [] \<Rightarrow> [[c]] | w # ws \<Rightarrow> (c # w) # ws))"

fun join_with :: "char \<Rightarrow> string list \<Rightarrow> string" where
  "join_with d [] = []"
| "join_with d [x] = x"
| "join_with d (x # y # ys) = x @ d # join_with d (y # ys)"

section \<open>URL resolution: \<open>urllib.parse.urljoin\<close>\<close>

text \<open>
  \<open>_make_request\<close> resolves the request path with the standard library's \<open>urljoin\<close>.
  The functions below follow \<open>urllib/parse.py\<close> (CPython 3.11) on text strings:
  \<open>urlsplit\<close>, \<open>_splitnetloc\<close>, \<open>_splitparams\<close>, \<open>urlparse\<close>, \<open>urlunsplit\<close>,
  \<open>urlunparse\<close> and \<open>urljoin\<close>, with \<open>_check_bracketed_host\<close> and the address parsers of
  \<open>ipaddress.py\<close> it calls. A character of the model is a code point below 256. The
  only exception these functions raise is \<open>ValueError\<close>, from \<open>urlsplit\<close> for an authority
  with unbalanced square brackets or an invalid bracketed host; \<open>None\<close> stands for it.
  (\<open>_checknetloc\<close> rejects an authority only when a character of it normalises, under
  NFKC, to text that holds one of \<open>/?#@:\<close>; no code point below 256 does.)
\<close>

definition uses_relative :: "string list" where
  "uses_relative = ['''', ''ftp'', ''http'', ''gopher'', ''nntp'', ''imap'', ''wais'', ''file'',
     ''https'', ''shttp'', ''mms'', ''prospero'', ''rtsp'', ''rtsps'', ''rtspu'', ''sftp'',
     ''svn'', ''svn+ssh'', ''ws'', ''wss'']"

definition uses_netloc :: "string list" where
  "uses_netloc = ['''', ''ftp'', ''http'', ''gopher'', ''nntp'', ''telnet'', ''imap'', ''wais'',
     ''file'', ''mms'', ''https'', ''shttp'', ''snews'', ''prospero'', ''rtsp'', ''rtsps'',
     ''rtspu'', ''rsync'', ''svn'', ''svn+ssh'', ''sftp'', ''nfs'', ''git'', ''git+ssh'',
     ''ws'', ''wss'']"

definition uses_params :: "string list" where
  "uses_params = ['''', ''ftp'', ''hdl'', ''prospero'', ''http'', ''imap'', ''https'', ''shttp'',
     ''rtsp'', ''rtsps'', ''rtspu'', ''sip'', ''sips'', ''mms'', ''sftp'', ''tel'']"

definition scheme_chars :: "string" where
  "scheme_chars = ''abcdefghijklmnopqrstuvwxyzABCDEFGHIJKLMNOPQRSTUVWXYZ0123456789+-.''"

definition c0_control_or_space :: "char \<Rightarrow> bool" where
  "c0_control_or_space c \<longleftrightarrow> (of_char c :: nat) \<le> 32"

definition unsafe_url_byte :: "char \<Rightarrow> bool" where
  "unsafe_url_byte c \<longleftrightarrow> (of_char c :: nat) = 9 \<or> (of_char c :: nat) = 13 \<or> (of_char c :: nat) = 10"

definition lstrip_c0 :: "string \<Rightarrow> string" where
  "lstrip_c0 s = dropWhile c0_control_or_space s"

definition strip_c0 :: "string \<Rightarrow> string" where
  "strip_c0 s = rev (dropWhile c0_control_or_space (rev (dropWhile c0_control_or_space s)))"

definition remove_unsafe :: "string \<Rightarrow> string" where
  "remove_unsafe s = filter (\<lambda>c. \<not> unsafe_url_byte c) s"

text \<open>\<open>s.split(d, 1)\<close> when \<open>d\<close> occurs in \<open>s\<close>: the text before and after its first occurrence.\<close>

definition before_first :: "char \<Rightarrow> string \<Rightarrow> string" where
  "before_first d s = takeWhile (\<lambda>c. c \<noteq> d) s"

definition after_first :: "char \<Rightarrow> string \<Rightarrow> string" where
  "after_first d s = drop 1 (dropWhile (\<lambda>c. c \<noteq> d) s)"

definition netloc_delim :: "char \<Rightarrow> bool" where
  "netloc_delim c \<longleftrightarrow> c = CHR ''/'' \<or> c = CHR ''?'' \<or> c = CHR ''#''"

definition splitnetloc :: "string \<Rightarrow> string \<times> string" where
  "splitnetloc url =
     (let r = drop 2 url
      in (takeWhile (\<lambda>c. \<not> netloc_delim c) r, dropWhile (\<lambda>c. \<not> netloc_delim c) r))"

text \<open>\<open>ipaddress.IPv4Address(s)\<close> accepts the text \<open>s\<close>: four octets, each of one to three
  ASCII digits, without a leading zero unless it is \<open>0\<close>, and at most 255.\<close>

definition is_ascii_digit :: "char \<Rightarrow> bool" where
  "is_ascii_digit c \<longleftrightarrow> (let n = (of_char c :: nat) in 48 \<le> n \<and> n \<le> 57)"

definition is_hex_digit :: "char \<Rightarrow> bool" where
  "is_hex_digit c \<longleftrightarrow>
     (let n = (of_char c :: nat)
      in (48 \<le> n \<and> n \<le> 57) \<or> (65 \<le> n \<and> n \<le> 70) \<or> (97 \<le> n \<and> n \<le> 102))"

definition decimal_value :: "string \<Rightarrow> nat" where
  "decimal_value s = foldl (\<lambda>acc c. 10 * acc + (of_char c - 48)) 0 s"

definition valid_octet :: "string \<Rightarrow> bool" where
  "valid_octet s \<longleftrightarrow>
     s \<noteq> [] \<and> list_all is_ascii_digit s \<and> length s \<le> 3
     \<and> (s = ''0'' \<or> hd s \<noteq> CHR ''0'') \<and> decimal_value s \<le> 255"

definition valid_ipv4 :: "string \<Rightarrow> bool" where
  "valid_ipv4 s \<longleftrightarrow>
     CHR ''/'' \<notin> set s \<and> s \<noteq> []
     \<and> length (split_on (CHR ''.'') s) = 4 \<and> list_all valid_octet (split_on (CHR ''.'') s)"

text \<open>\<open>_parse_hextet\<close> returns: one to four hexadecimal digits (\<open>int('', 16)\<close> raises).\<close>

definition valid_hextet :: "string \<Rightarrow> bool" where
  "valid_hextet s \<longleftrightarrow> list_all is_hex_digit s \<and> length s \<le> 4 \<and> s \<noteq> []"

text \<open>
  \<open>_BaseV6._ip_int_from_string\<close> returns, for the text before any scope id. An
  IPv4-style last part is replaced by the two hextets of its value, which are valid
  whatever the value: \<open>0\<close> stands for each here.
\<close>

definition valid_ipv6_parts :: "string \<Rightarrow> bool" where
  "valid_ipv6_parts s \<longleftrightarrow>
     (let parts0 = split_on (CHR '':'') s
      in s \<noteq> [] \<and> 3 \<le> length parts0
         \<and> (if CHR ''.'' \<in> set (last parts0) then valid_ipv4 (last parts0) else True)
         \<and> (let parts = (if CHR ''.'' \<in> set (last parts0)
                          then butlast parts0 @ [''0'', ''0''] else parts0);
                  n = length parts;
                  skips = filter (\<lambda>i. parts ! i = []) [1..<n - 1]
              in n \<le> 9 \<and> length skips \<le> 1
                 \<and> (case skips of
                       [] \<Rightarrow> n = 8 \<and> list_all valid_hextet parts
                     | skip_index # _ \<Rightarrow>
                         (let parts_hi = (if hd parts = [] then skip_index - 1 else skip_index);
                              parts_lo = (if last parts = [] then n - skip_index - 1 - 1
                                          else n - skip_index - 1)
                          in (if hd parts = [] then parts_hi = 0 else True)
                             \<and> (if last parts = [] then parts_lo = 0 else True)
                             \<and> parts_hi + parts_lo \<le> 7
                             \<and> list_all valid_hextet (take parts_hi parts)
                             \<and> list_all valid_hextet (drop (n - parts_lo) parts)))))"

text \<open>\<open>ipaddress.IPv6Address(s)\<close> accepts the text \<open>s\<close>: \<open>_split_scope_id\<close> takes off a scope
  id after \<open>%\<close>, which must be non-empty and free of \<open>%\<close>.\<close>

definition valid_ipv6 :: "string \<Rightarrow> bool" where
  "valid_ipv6 s \<longleftrightarrow>
     CHR ''/'' \<notin> set s
     \<and> (if CHR ''%'' \<in> set s
         then after_first (CHR ''%'') s \<noteq> [] \<and> CHR ''%'' \<notin> set (after_first (CHR ''%'') s)
              \<and> valid_ipv6_parts (before_first (CHR ''%'') s)
         else valid_ipv6_parts s)"

text \<open>The pattern \<open>\Av[a-fA-F0-9]+\..+\Z\<close> matches: \<open>v\<close>, hexadecimal digits, a dot, and at
  least one more character, none of them a line feed.\<close>

definition ipvfuture_match :: "string \<Rightarrow> bool" where
  "ipvfuture_match h \<longleftrightarrow>
     (let digits = takeWhile is_hex_digit (drop 1 h);
          rest = dropWhile is_hex_digit (drop 1 h)
      in take 1 h = ''v'' \<and> digits \<noteq> [] \<and> take 1 rest = ''.'' \<and> drop 1 rest \<noteq> []
         \<and> CHR 0x0A \<notin> set (drop 1 rest))"

text \<open>\<open>_check_bracketed_host\<close> returns (rather than raising \<open>ValueError\<close>): an IPvFuture
  literal, or text that \<open>ip_address\<close> reads as an IPv6 and not as an IPv4 address.\<close>

definition check_bracketed_host :: "string \<Rightarrow> bool" where
  "check_bracketed_host hostname \<longleftrightarrow>
     (if take 1 hostname = ''v'' then ipvfuture_match hostname
      else \<not> valid_ipv4 hostname \<and> valid_ipv6 hostname)"

text \<open>The checks of \<open>urlsplit\<close> on the authority it has split off pass.\<close>

definition netloc_accepted :: "string \<Rightarrow> bool" where
  "netloc_accepted netloc \<longleftrightarrow>
     (let lb = CHR ''['' \<in> set netloc; rb = CHR '']'' \<in> set netloc
      in if (lb \<and> \<not> rb) \<or> (rb \<and> \<not> lb) then False
         else if lb \<and> rb
              then check_bracketed_host (before_first (CHR '']'') (after_first (CHR ''['') netloc))
              else True)"

definition urlsplit ::
  "string \<Rightarrow> string \<Rightarrow> (string \<times> string \<times> string \<times> string \<times> string) option" where
  "urlsplit url0 scheme0 =
     (let url1 = remove_unsafe (lstrip_c0 url0);
          scheme1 = remove_unsafe (strip_c0 scheme0);
          pre = before_first (CHR '':'') url1;
          (scheme, url2) =
            (if CHR '':'' \<in> set url1 \<and> pre \<noteq> [] \<and> is_ascii_alpha (hd url1)
                \<and> list_all (\<lambda>c. c \<in> set scheme_chars) pre
             then (lower pre, after_first (CHR '':'') url1)
             else (scheme1, url1));
          (netloc, url3) =
            (if take 2 url2 = ''//'' then splitnetloc url2 else ('''', url2));
          accepted = (if take 2 url2 = ''//'' then netloc_accepted netloc else True);
          (url4, fragment) =
            (if CHR ''#'' \<in> set url3
             then (before_first (CHR ''#'') url3, after_first (CHR ''#'') url3)
             else (url3, ''''));
          (url5, query) =
            (if CHR ''?'' \<in> set url4
             then (before_first (CHR ''?'') url4, after_first (CHR ''?'') url4)
             else (url4, ''''))
      in if accepted then Some (scheme, netloc, url5, query, fragment) else None)"

definition splitparams :: "string \<Rightarrow> string \<times> string" where
  "splitparams url =
     (if CHR ''/'' \<in> set url then
        (let k = length url - 1 - length (takeWhile (\<lambda>c. c \<noteq> CHR ''/'') (rev url));
             tl = drop k url
         in if CHR '';'' \<in> set tl
            then (let i = k + length (before_first (CHR '';'') tl)
                  in (take i url, drop (i + 1) url))
            else (url, ''''))
      else (before_first (CHR '';'') url, after_first (CHR '';'') url))"

definition urlparse ::
  "string \<Rightarrow> string \<Rightarrow>
     (string \<times> string \<times> string \<times> string \<times> string \<times> string) option" where
  "urlparse url0 scheme0 =
     (case urlsplit url0 scheme0 of
        None \<Rightarrow> None
      | Some (scheme, netloc, url, query, fragment) \<Rightarrow>
          (if scheme \<in> set uses_params \<and> CHR '';'' \<in> set url
           then (case splitparams url of (url', params) \<Rightarrow>
                   Some (scheme, netloc, url', params, query, fragment))
           else Some (scheme, netloc, url, '''', query, fragment)))"

definition urlunsplit :: "string \<times> string \<times> string \<times> string \<times> string \<Rightarrow> string" where
  "urlunsplit comps =
     (case comps of (scheme, netloc, url0, query, fragment) \<Rightarrow>
        (let url1 =
               (if netloc \<noteq> [] \<or> (scheme \<noteq> [] \<and> scheme \<in> set uses_netloc) \<or> take 2 url0 = ''//''
                then ''//'' @ netloc @
                       (if url0 \<noteq> [] \<and> take 1 url0 \<noteq> ''/'' then CHR ''/'' # url0 else url0)
                else url0);
             url2 = (if scheme \<noteq> [] then scheme @ CHR '':'' # url1 else url1);
             url3 = (if query \<noteq> [] then url2 @ CHR ''?'' # query else url2)
         in (if fragment \<noteq> [] then url3 @ CHR ''#'' # fragment else url3)))"

definition urlunparse ::
  "string \<times> string \<times> string \<times> string \<times> string \<times> string \<Rightarrow> string" where
  "urlunparse comps =
     (case comps of (scheme, netloc, url, params, query, fragment) \<Rightarrow>
        urlunsplit (scheme, netloc,
          (if params \<noteq> [] then url @ CHR '';'' # params else url), query, fragment))"

text \<open>
  The loop of \<open>urljoin\<close> over the path segments: \<open>..\<close> pops the last resolved segment
  (an empty stack stays empty: the \<open>IndexError\<close> is caught), \<open>.\<close> is skipped.
\<close>

fun resolve_segments :: "string list \<Rightarrow> string list \<Rightarrow> string list" where
  "resolve_segments resolved [] = resolved"
| "resolve_segments resolved (seg # segs) =
     (if seg = ''..'' then resolve_segments (butlast resolved) segs
      else if seg = ''.'' then resolve_segments resolved segs
      else resolve_segments (resolved @ [seg]) segs)"

text \<open>\<open>segments[1:-1] = filter(None, segments[1:-1])\<close>.\<close>

definition filter_inner :: "string list \<Rightarrow> string list" where
  "filter_inner segs =
     (if length segs < 2 then segs
      else hd segs # filter (\<lambda>s. s \<noteq> []) (butlast (tl segs)) @ [last segs])"

definition urljoin :: "string \<Rightarrow> string \<Rightarrow> string option" where
  "urljoin base url =
     (if base = [] then Some url
      else if url = [] then Some base
      else
        (case urlparse base '''' of
           None \<Rightarrow> None
         | Some (bscheme, bnetloc, bpath, bparams, bquery, bfragment) \<Rightarrow>
        (case urlparse url bscheme of
           None \<Rightarrow> None
         | Some (scheme, netloc0, path, params, query, fragment) \<Rightarrow>
           if scheme \<noteq> bscheme \<or> scheme \<notin> set uses_relative then Some url
           else if scheme \<in> set uses_netloc \<and> netloc0 \<noteq> [] then
             Some (urlunparse (scheme, netloc0, path, params, query, fragment))
           else
             (let netloc = (if scheme \<in> set uses_netloc then bnetloc else netloc0)
              in if path = [] \<and> params = [] then
                   Some (urlunparse (scheme, netloc, bpath, bparams,
                     (if query = [] then bquery else query), fragment))
                 else
                   (let base_parts0 = split_on (CHR ''/'') bpath;
                        base_parts =
                          (if last base_parts0 \<noteq> [] then butlast base_parts0 else base_parts0);
                        segments =
                          (if take 1 path = ''/'' then split_on (CHR ''/'') path
                           else filter_inner (base_parts @ split_on (CHR ''/'') path));
                        resolved0 = resolve_segments [] segments;
                        resolved =
                          (if last segments = ''.'' \<or> last segments = ''..''
                           then resolved0 @ [[]] else resolved0);
                        joined = join_with (CHR ''/'') resolved
                    in Some (urlunparse (scheme, netloc,
                         (if joined = [] then ''/'' else joined), params, query, fragment)))))))"

text \<open>The path \<open>urljoin\<close> computes from a reference path that starts with \<open>/\<close>: its
  segments with \<open>.\<close> and \<open>..\<close> resolved, none taken from the base.\<close>

definition rooted_path :: "string \<Rightarrow> string" where
  "rooted_path path =
     (let segments = split_on (CHR ''/'') path;
          resolved0 = resolve_segments [] segments;
          resolved = (if last segments = ''.'' \<or> last segments = ''..''
                      then resolved0 @ [[]] else resolved0);
          joined = join_with (CHR ''/'') resolved
      in if joined = [] then ''/'' else joined)"

section \<open>Data model\<close>

text \<open>\<open>class ApiError(Exception)\<close>: the message, and the attributes \<open>status\<close>, \<open>code\<close>, \<open>details\<close>.
  Nothing checks that the message and the code are strings: they are whatever the
  parsed body holds under these keys.\<close>

record ApiError =
  message :: pyval
  error_status :: int
  code :: pyval
  details :: pyval

text \<open>\<open>class ApiResponse(BaseModel)\<close>.\<close>

record ApiResponse =
  data :: pyval
  status :: int
  headers :: "(string \<times> string) list"
  success :: bool

text \<open>\<open>class ApiClientConfig(BaseModel)\<close>, with the declared types of its fields.\<close>

record ApiClientConfig =
  base_url :: string
  api_key :: "string option"
  timeout :: int
  retries :: int
  retry_delay :: int
  debug :: bool

text \<open>The exceptions that can leave the client: its own \<open>ApiError\<close>, and those raised by the
  operations it calls and does not catch. \<open>Uncaught\<close> is an exception of \<open>session.request\<close>
  of a class other than \<open>requests.RequestException\<close>, by its description.\<close>

datatype exn =
    ApiErr ApiError
  | AttributeError
  | ValueError
  | OverflowError
  | OSError
  | ValidationError
  | Uncaught string

text \<open>The part of \<open>requests.Session\<close> the client touches, and the client itself. The client
  holds its configuration by value: sharing one configuration object between several clients
  is outside the model.\<close>

record Session =
  session_headers :: "(string \<times> string) list"
  session_timeout :: int

record ApiClient =
  config :: ApiClientConfig
  session :: Session

section \<open>Construction\<close>

text \<open>
  \<open>ApiClientConfig(**config)\<close> for a raw mapping. The model class declares no validator,
  so the only checks are the field types: \<open>base_url\<close> is required and a string, every
  other field falls back on its default. A value of another type is rejected here
  (\<open>ValidationError\<close>); the coercions the validation library applies to some of them
  are not modelled. Unknown keys are ignored.
\<close>

definition str_field :: "(string \<times> pyval) list \<Rightarrow> string \<Rightarrow> string option" where
  "str_field d k = (case map_of d k of Some (PyStr s) \<Rightarrow> Some s | _ \<Rightarrow> None)"

definition opt_str_field :: "(string \<times> pyval) list \<Rightarrow> string \<Rightarrow> string option option" where
  "opt_str_field d k =
     (case map_of d k of
        None \<Rightarrow> Some None
      | Some PyNone \<Rightarrow> Some None
      | Some (PyStr s) \<Rightarrow> Some (Some s)
      | Some _ \<Rightarrow> None)"

definition int_field :: "(string \<times> pyval) list \<Rightarrow> string \<Rightarrow> int \<Rightarrow> int option" where
  "int_field d k dflt =
     (case map_of d k of None \<Rightarrow> Some dflt | Some (PyInt i) \<Rightarrow> Some i | Some _ \<Rightarrow> None)"

definition bool_field :: "(string \<times> pyval) list \<Rightarrow> string \<Rightarrow> bool \<Rightarrow> bool option" where
  "bool_field d k dflt =
     (case map_of d k of None \<Rightarrow> Some dflt | Some (PyBool b) \<Rightarrow> Some b | Some _ \<Rightarrow> None)"

definition ApiClientConfig_of_dict :: "(string \<times> pyval) list \<Rightarrow> exn + ApiClientConfig" where
  "ApiClientConfig_of_dict d =
     (case (str_field d ''base_url'', opt_str_field d ''api_key'', int_field d ''timeout'' 30,
            int_field d ''retries'' 3, int_field d ''retry_delay'' 1, bool_field d ''debug'' False) of
        (Some b, Some k, Some t, Some r, Some rd, Some dbg) \<Rightarrow>
          Inr \<lparr>base_url = b, api_key = k, timeout = t, retries = r, retry_delay = rd, debug = dbg\<rparr>
      | _ \<Rightarrow> Inl ValidationError)"

text \<open>The argument of \<open>ApiClient.__init__\<close>: \<open>Union[ApiClientConfig, Dict]\<close>.\<close>

datatype config_input =
    Structured ApiClientConfig
  | Raw "(string \<times> pyval) list"

text \<open>\<open>headers.update(d)\<close>: the bindings of \<open>d\<close> are written one by one.\<close>

definition headers_update ::
  "(string \<times> string) list \<Rightarrow> (string \<times> string) list \<Rightarrow> (string \<times> string) list" where
  "headers_update hs d = fold (\<lambda>(k, v) acc. AList.update k v acc) d hs"

text \<open>\<open>if config.api_key:\<close> is Python truthiness: neither \<open>None\<close> nor the empty string.\<close>

definition truthy_key :: "string option \<Rightarrow> bool" where
  "truthy_key k = (case k of None \<Rightarrow> False | Some s \<Rightarrow> s \<noteq> [])"

text \<open>
  \<open>ApiClient.__init__\<close>. The first argument stands for the object \<open>requests.Session()\<close>
  returns, with the library's default headers.
\<close>

definition ApiClient_init :: "Session \<Rightarrow> config_input \<Rightarrow> exn + ApiClient" where
  "ApiClient_init fresh inp =
     (case (case inp of Raw d \<Rightarrow> ApiClientConfig_of_dict d | Structured c \<Rightarrow> Inr c) of
        Inl e \<Rightarrow> Inl e
      | Inr cfg \<Rightarrow>
          (let hdrs0 = [(''Content-Type'', ''application/json'')];
               hdrs = (case api_key cfg of
                         Some k \<Rightarrow>
                           (if truthy_key (Some k)
                            then hdrs0 @ [(''Authorization'', ''Bearer '' @ k)] else hdrs0)
                       | None \<Rightarrow> hdrs0)
           in Inr \<lparr>config = cfg,
                   session = \<lparr>session_headers = headers_update (session_headers fresh) hdrs,
                              session_timeout = timeout cfg\<rparr>\<rparr>))"

definition set_api_key :: "ApiClient \<Rightarrow> string \<Rightarrow> ApiClient" where
  "set_api_key c k =
     c\<lparr>config := (config c)\<lparr>api_key := Some k\<rparr>,
       session := (session c)\<lparr>session_headers :=
         AList.update ''Authorization'' (''Bearer '' @ k) (session_headers (session c))\<rparr>\<rparr>"

definition set_base_url :: "ApiClient \<Rightarrow> string \<Rightarrow> ApiClient" where
  "set_base_url c b = c\<lparr>config := (config c)\<lparr>base_url := b\<rparr>\<rparr>"

section \<open>The transport\<close>

text \<open>
  What \<open>session.request\<close> hands back: a \<open>requests.Response\<close>, of which the client reads
  the status code, the text, the headers and \<open>json()\<close> (\<open>None\<close> here when \<open>json()\<close>
  raises); or a \<open>requests.RequestException\<close>, of which it reads \<open>str(e)\<close>; or an
  exception of another class (a \<open>TypeError\<close> for a body that cannot be sent, say).
\<close>

record Response =
  status_code :: int
  response_text :: string
  response_json :: "pyval option"
  response_headers :: "(string \<times> string) list"

datatype attempt_outcome =
    Received Response
  | RequestException string
  | OtherException string

text \<open>\<open>Response.ok\<close>: \<open>raise_for_status()\<close> raises exactly for 400 \<le> status < 600.\<close>

definition ok :: "Response \<Rightarrow> bool" where
  "ok r \<longleftrightarrow> \<not> (400 \<le> status_code r \<and> status_code r < 600)"

text \<open>One call of \<open>session.request(method, full_url, **kwargs)\<close> as it leaves the client: the
  session's headers go out with every request.\<close>

record Request =
  request_method :: string
  request_url :: string
  request_headers :: "(string \<times> string) list"
  request_kwargs :: "(string \<times> pyval) list"

text \<open>The observable effects of a call, in order.\<close>

datatype event =
    Printed string
  | Sent Request
  | Slept int

text \<open>
  \<open>time.sleep(secs)\<close> for an integer (CPython 3.11, \<open>time_sleep\<close> in \<open>timemodule.c\<close>). The
  seconds are converted to nanoseconds in a signed 64-bit integer: outside
  \<open>[-9223372036, 9223372036]\<close> the conversion raises \<open>OverflowError\<close>. A negative wait then
  raises \<open>ValueError\<close>. The wait is then handed to the operating system, which can
  refuse it with \<open>OSError\<close> (it does so for waits near the upper bound): \<open>accepts\<close> says
  which waits it takes.
\<close>

definition time_sleep :: "(int \<Rightarrow> bool) \<Rightarrow> int \<Rightarrow> exn + event" where
  "time_sleep accepts secs =
     (if secs < - 9223372036 \<or> 9223372036 < secs then Inl OverflowError
      else if secs < 0 then Inl ValueError
      else if \<not> accepts secs then Inl OSError
      else Inr (Slept secs))"

text \<open>The call \<open>time.sleep(secs)\<close> returns.\<close>

definition sleep_returns :: "(int \<Rightarrow> bool) \<Rightarrow> int \<Rightarrow> bool" where
  "sleep_returns accepts secs \<longleftrightarrow> 0 \<le> secs \<and> secs \<le> 9223372036 \<and> accepts secs"

section \<open>The request loop\<close>

text \<open>
  Lines 66 to 78 of \<open>client.py\<close>: the error raised for a response that is not \<open>ok\<close>.
  \<open>error_data\<close> is the parsed body, or \<open>{}\<close> when parsing raises. \<open>error_data.get\<close>
  exists only on a dictionary: for any other parsed value the attribute lookup raises
  \<open>AttributeError\<close>, which the enclosing handler does not catch.
\<close>

definition dict_get :: "(string \<times> pyval) list \<Rightarrow> string \<Rightarrow> pyval \<Rightarrow> pyval" where
  "dict_get d k dflt = (case map_of d k of Some v \<Rightarrow> v | None \<Rightarrow> dflt)"

definition error_of_response :: "Response \<Rightarrow> exn" where
  "error_of_response r =
     (let error_data = (case response_json r of Some v \<Rightarrow> v | None \<Rightarrow> PyDict [])
      in case error_data of
           PyDict d \<Rightarrow>
             ApiErr \<lparr>message =
                       dict_get d ''message''
                         (PyStr (''Request failed with status '' @ str_int (status_code r))),
                     error_status = status_code r,
                     code = dict_get d ''code'' (PyStr ''UNKNOWN_ERROR''),
                     details = error_data\<rparr>
         | _ \<Rightarrow> AttributeError)"

text \<open>Lines 80 to 90: the envelope for a response that is \<open>ok\<close>.\<close>

definition envelope_of_response :: "Response \<Rightarrow> ApiResponse" where
  "envelope_of_response r =
     \<lparr>data = (case response_json r of Some v \<Rightarrow> v | None \<Rightarrow> PyStr (response_text r)),
      status = status_code r,
      headers = response_headers r,
      success = True\<rparr>"

definition network_error :: "string \<Rightarrow> exn" where
  "network_error e =
     ApiErr \<lparr>message = PyStr e, error_status = 0, code = PyStr ''NETWORK_ERROR'', details = PyNone\<rparr>"

definition outgoing :: "ApiClient \<Rightarrow> string \<Rightarrow> string \<Rightarrow> (string \<times> pyval) list \<Rightarrow> Request" where
  "outgoing c method full_url kwargs =
     \<lparr>request_method = method, request_url = full_url,
      request_headers = session_headers (session c), request_kwargs = kwargs\<rparr>"

text \<open>Lines 57 to 60: the debug line, when enabled, then the call of \<open>session.request\<close>.
  Standard output is taken to accept the line.\<close>

definition attempt_events ::
  "ApiClient \<Rightarrow> string \<Rightarrow> string \<Rightarrow> (string \<times> pyval) list \<Rightarrow> event list" where
  "attempt_events c method full_url kwargs =
     (if debug (config c)
      then [Printed (''[API Client] '' @ upper method @ '' '' @ full_url)] else [])
     @ [Sent (outgoing c method full_url kwargs)]"

text \<open>
  The \<open>for attempt in range(retries + 1)\<close> loop, by recursion on the list of attempt
  numbers still to run. \<open>net n\<close> is what the \<open>n\<close>-th call of \<open>session.request\<close> meets, and
  \<open>accepts\<close> the waits the operating system takes. An exception of \<open>session.request\<close>
  that is not a \<open>RequestException\<close> passes the handler and leaves the call.
  The result is \<open>Inl\<close> an exception, \<open>Inr (Some envelope)\<close> for a returned envelope, and
  \<open>Inr None\<close> when the loop ends without \<open>return\<close> or \<open>raise\<close> (the function then returns
  \<open>None\<close>), together with the trace of effects.
\<close>

fun request_loop ::
  "ApiClient \<Rightarrow> (nat \<Rightarrow> attempt_outcome) \<Rightarrow> (int \<Rightarrow> bool) \<Rightarrow> string \<Rightarrow> string \<Rightarrow>
     (string \<times> pyval) list \<Rightarrow> int list \<Rightarrow> (exn + ApiResponse option) \<times> event list" where
  "request_loop c net accepts method full_url kwargs [] = (Inr None, [])"
| "request_loop c net accepts method full_url kwargs (attempt # rest) =
     (let cfg = config c;
          trace = attempt_events c method full_url kwargs
      in case net (nat attempt) of
           Received response \<Rightarrow>
             if status_code response \<ge> 500 \<and> attempt < retries cfg then
               (case time_sleep accepts (retry_delay cfg * (attempt + 1)) of
                  Inl e \<Rightarrow> (Inl e, trace)
                | Inr ev \<Rightarrow>
                    (case request_loop c net accepts method full_url kwargs rest of
                       (res, tr) \<Rightarrow> (res, trace @ ev # tr)))
             else if \<not> ok response then (Inl (error_of_response response), trace)
             else (Inr (Some (envelope_of_response response)), trace)
         | RequestException e \<Rightarrow>
             if attempt = retries cfg then (Inl (network_error e), trace)
             else
               (case time_sleep accepts (retry_delay cfg * (attempt + 1)) of
                  Inl e' \<Rightarrow> (Inl e', trace)
                | Inr ev \<Rightarrow>
                    (case request_loop c net accepts method full_url kwargs rest of
                       (res, tr) \<Rightarrow> (res, trace @ ev # tr)))
         | OtherException e \<Rightarrow> (Inl (Uncaught e), trace))"

text \<open>
  \<open>ApiClient._make_request\<close>. Line 53 stands before the loop and outside its \<open>try\<close>: a
  \<open>ValueError\<close> of \<open>urljoin\<close> leaves the call before any attempt. \<open>range(retries + 1)\<close> is
  the list \<open>[0..retries]\<close>, empty for a negative \<open>retries\<close>.
\<close>

definition make_request ::
  "ApiClient \<Rightarrow> (nat \<Rightarrow> attempt_outcome) \<Rightarrow> (int \<Rightarrow> bool) \<Rightarrow> string \<Rightarrow> string \<Rightarrow>
     (string \<times> pyval) list \<Rightarrow> (exn + ApiResponse option) \<times> event list" where
  "make_request c net accepts method url kwargs =
     (case urljoin (base_url (config c)) url of
        None \<Rightarrow> (Inl ValueError, [])
      | Some full_url \<Rightarrow>
          request_loop c net accepts method full_url kwargs [0..retries (config c)])"

text \<open>The verb wrappers. An argument left out is \<open>None\<close>.\<close>

definition get ::
  "ApiClient \<Rightarrow> (nat \<Rightarrow> attempt_outcome) \<Rightarrow> (int \<Rightarrow> bool) \<Rightarrow> string \<Rightarrow> pyval \<Rightarrow>
     (exn + ApiResponse option) \<times> event list" where
  "get c net accepts url params = make_request c net accepts ''GET'' url [(''params'', params)]"






text \<open>Readings of a trace: the requests sent and the waits, in order.\<close>

fun sent :: "event list \<Rightarrow> Request list" where
  "sent [] = []"
| "sent (Sent rq # es) = rq # sent es"
| "sent (_ # es) = sent es"

fun sleeps :: "event list \<Rightarrow> int list" where
  "sleeps [] = []"
| "sleeps (Slept d # es) = d # sleeps es"
| "sleeps (_ # es) = sleeps es"

text \<open>The trace without the debug lines: what goes over the wire and the waits between.\<close>

fun wire :: "event list \<Rightarrow> event list" where
  "wire [] = []"
| "wire (Printed s # es) = wire es"
| "wire (e # es) = e # wire es"

text \<open>The \<open>Authorization\<close> header of a request, if it carries one.\<close>

definition authorization :: "Request \<Rightarrow> string option" where
  "authorization rq = map_of (request_headers rq) ''Authorization''"

text \<open>
  Attempt \<open>a\<close> ends in \<open>continue\<close> (line 64) or in the handler's fall-through (line 95),
  once its wait returns: attempts remain, and the response is a 5xx or the transport
  failed with a \<open>RequestException\<close>.
\<close>

definition retried :: "ApiClient \<Rightarrow> (nat \<Rightarrow> attempt_outcome) \<Rightarrow> int \<Rightarrow> bool" where
  "retried c net a \<longleftrightarrow>
     a < retries (config c) \<and>
     (case net (nat a) of
        Received r \<Rightarrow> status_code r \<ge> 500
      | RequestException e \<Rightarrow> True
      | OtherException e \<Rightarrow> False)"

text \<open>
  Attempt \<open>k\<close> of a request for \<open>url\<close> is performed: \<open>urljoin\<close> returned, \<open>k\<close> is one of
  \<open>range(retries + 1)\<close>, and every earlier attempt was retried after a wait that returned.
\<close>

definition reaches ::
  "ApiClient \<Rightarrow> (nat \<Rightarrow> attempt_outcome) \<Rightarrow> (int \<Rightarrow> bool) \<Rightarrow> string \<Rightarrow> int \<Rightarrow> bool" where
  "reaches c net accepts url k \<longleftrightarrow>
     urljoin (base_url (config c)) url \<noteq> None \<and>
     0 \<le> k \<and> k \<le> retries (config c) \<and>
     list_all (\<lambda>j. retried c net j \<and> sleep_returns accepts (retry_delay (config c) * (j + 1)))
       [0..k - 1]"



section \<open>Example inputs\<close>

text \<open>The client of \<open>test_client.py\<close> (\<open>setup_method\<close>), built on a session with the
  library's default headers, and variations of its configuration.\<close>

definition library_session :: Session where
  "library_session =
     \<lparr>session_headers = [(''User-Agent'', ''python-requests''), (''Accept-Encoding'', ''gzip, deflate''),
                          (''Accept'', ''*/*''), (''Connection'', ''keep-alive'')],
      session_timeout = 0\<rparr>"

definition test_mapping :: "(string \<times> pyval) list" where
  "test_mapping =
     [(''base_url'', PyStr ''https://api.example.com''), (''api_key'', PyStr ''test-api-key''),
      (''debug'', PyBool False)]"

definition test_config :: ApiClientConfig where
  "test_config =
     \<lparr>base_url = ''https://api.example.com'', api_key = Some ''test-api-key'', timeout = 30,
      retries = 3, retry_delay = 1, debug = False\<rparr>"

definition test_headers :: "(string \<times> string) list" where
  "test_headers =
     [(''User-Agent'', ''python-requests''), (''Accept-Encoding'', ''gzip, deflate''),
      (''Accept'', ''*/*''), (''Connection'', ''keep-alive''),
      (''Content-Type'', ''application/json''), (''Authorization'', ''Bearer test-api-key'')]"

definition test_client :: ApiClient where
  "test_client =
     \<lparr>config = test_config,
      session = \<lparr>session_headers = test_headers, session_timeout = 30\<rparr>\<rparr>"


text \<open>An operating system that takes every wait of up to a day.\<close>

definition up_to_a_day :: "int \<Rightarrow> bool" where
  "up_to_a_day secs \<longleftrightarrow> secs \<le> 86400"

text \<open>A transport that meets the same outcome at every attempt, and one that meets a first
  outcome once and a second one from then on.\<close>

definition always :: "attempt_outcome \<Rightarrow> nat \<Rightarrow> attempt_outcome" where
  "always outcome n = outcome"

definition once_then :: "attempt_outcome \<Rightarrow> attempt_outcome \<Rightarrow> nat \<Rightarrow> attempt_outcome" where
  "once_then first later n = (if n = 0 then first else later)"

definition json_response :: "int \<Rightarrow> string \<Rightarrow> pyval \<Rightarrow> Response" where
  "json_response st txt v =
     \<lparr>status_code = st, response_text = txt, response_json = Some v,
      response_headers = [(''Content-Type'', ''application/json'')]\<rparr>"

definition text_response :: "int \<Rightarrow> string \<Rightarrow> Response" where
  "text_response st txt =
     \<lparr>status_code = st, response_text = txt, response_json = None,
      response_headers = [(''Content-Type'', ''text/html'')]\<rparr>"

text \<open>The bodies of the responses in \<open>test_client.py\<close>: their text, and what \<open>json()\<close>
  makes of it.\<close>

definition success_text :: string where
  \<open>success_text = ''{"message": "success"}''\<close>

definition validation_text :: string where
  \<open>validation_text =
     ''{"message": "Bad Request", "code": "VALIDATION_ERROR", "details": {"field": "email"}}''\<close>

definition success_body :: pyval where
  "success_body = PyDict [(''message'', PyStr ''success'')]"

definition validation_body :: pyval where
  "validation_body =
     PyDict [(''message'', PyStr ''Bad Request''), (''code'', PyStr ''VALIDATION_ERROR''),
             (''details'', PyDict [(''field'', PyStr ''email'')])]"

section \<open>Properties of the request loop\<close>

lemma loop_stop_response:
  assumes "net (nat a) = Received r" and "status_code r < 500 \<or> retries (config c) \<le> a"
  shows "request_loop c net accepts m u kw (a # rest) =
           (if ok r then Inr (Some (envelope_of_response r)) else Inl (error_of_response r),
            attempt_events c m u kw)"
  using assms by (auto simp: Let_def)


lemma loop_stop_other:
  assumes "net (nat a) = OtherException e"
  shows "request_loop c net accepts m u kw (a # rest) =
           (Inl (Uncaught e), attempt_events c m u kw)"
  using assms by (simp add: Let_def)

lemma time_sleep_returns:
  "sleep_returns accepts secs \<Longrightarrow> time_sleep accepts secs = Inr (Slept secs)"
  by (simp add: sleep_returns_def time_sleep_def)

lemma loop_retry:
  assumes "retried c net a" and "sleep_returns accepts (retry_delay (config c) * (a + 1))"
  shows "request_loop c net accepts m u kw (a # rest) =
           (fst (request_loop c net accepts m u kw rest),
            attempt_events c m u kw @ Slept (retry_delay (config c) * (a + 1))
              # snd (request_loop c net accepts m u kw rest))"
  using assms(1) time_sleep_returns [OF assms(2)]
  by (auto simp: Let_def retried_def split: attempt_outcome.splits prod.splits)

lemma sent_attempt_events_append [simp]:
  "sent (attempt_events c m u kw @ es) = outgoing c m u kw # sent es"
  by (simp add: attempt_events_def)

lemma sleeps_attempt_events_append [simp]:
  "sleeps (attempt_events c m u kw @ es) = sleeps es"
  by (simp add: attempt_events_def)

lemma sent_attempt_events [simp]: "sent (attempt_events c m u kw) = [outgoing c m u kw]"
  using sent_attempt_events_append [of c m u kw "[]"] by simp

lemma sleeps_attempt_events [simp]: "sleeps (attempt_events c m u kw) = []"
  using sleeps_attempt_events_append [of c m u kw "[]"] by simp

lemma wire_attempt_events_append [simp]:
  "wire (attempt_events c m u kw @ es) = Sent (outgoing c m u kw) # wire es"
  by (simp add: attempt_events_def)

lemma wire_attempt_events [simp]: "wire (attempt_events c m u kw) = [Sent (outgoing c m u kw)]"
  using wire_attempt_events_append [of c m u kw "[]"] by simp




lemma upto_first: "a \<le> n \<Longrightarrow> [a..n] = a # [a + 1..n]"
  by (simp add: upto_rec1)

lemma test_client_policy [simp]:
  "retries (config test_client) = 3" "retry_delay (config test_client) = 1"
  "debug (config test_client) = False" "base_url (config test_client) = ''https://api.example.com''"
  by (simp_all add: test_client_def test_config_def)

lemma make_request_resolved:
  assumes "urljoin (base_url (config c)) url = Some full"
  shows "make_request c net accepts m url kw =
           request_loop c net accepts m full kw [0..retries (config c)]"
  using assms by (simp add: make_request_def)


section \<open>Claims about retries and errors\<close>








lemma first_attempt_stops:
  assumes "urljoin (base_url (config c)) url = Some full"
    and "0 \<le> retries (config c)" and "net 0 = Received r" and "status_code r < 500"
  shows "make_request c net accepts m url kw =
           (if ok r then Inr (Some (envelope_of_response r)) else Inl (error_of_response r),
            attempt_events c m full kw)"
proof -
  have n: "net (nat 0) = Received r" using assms(3) by simp
  have l: "[0..retries (config c)] = 0 # [0 + 1..retries (config c)]"
    using assms(2) by (rule upto_first)
  show ?thesis
    unfolding make_request_resolved [OF assms(1)] l
    using loop_stop_response [of net 0 r c accepts m full kw, OF n] assms(4) by simp
qed

text \<open>
  Claim C2 is right about the intent and the code misses a case. A first response with
  status 400 whose body is valid JSON but not an object (here the array \<open>[400]\<close>, then
  \<open>null\<close>) makes \<open>error_data.get\<close> raise \<open>AttributeError\<close>: one attempt is made, and what
  leaves the call is not an \<open>ApiError\<close>.
\<close>

theorem C2_non_object_error_body:
  "get test_client (always (Received (json_response 400 ''[400]'' (PyList [PyInt 400]))))
       up_to_a_day ''/error'' PyNone =
     (Inl AttributeError,
      [Sent (outgoing test_client ''GET'' ''https://api.example.com/error'' [(''params'', PyNone)])])
   \<and> get test_client (always (Received (json_response 400 ''null'' PyNone))) up_to_a_day
       ''/error'' PyNone =
     (Inl AttributeError,
      [Sent (outgoing test_client ''GET'' ''https://api.example.com/error'' [(''params'', PyNone)])])"
  by code_simp

text \<open>
  Claim C3, as amended. A request, for a path that \<open>urljoin\<close> resolves, whose first
  response has status 400 and the JSON body
  \<open>{"message": "Bad Request", "code": "VALIDATION_ERROR", "details": {"field": "email"}}\<close>
  raises, after that one attempt, an \<open>ApiError\<close> with status 400, code
  \<open>VALIDATION_ERROR\<close>, message \<open>Bad Request\<close>, and with the whole parsed body as its
  details (line 77 passes \<open>error_data\<close>, not \<open>error_data['details']\<close>).
\<close>

theorem C3_validation_error:
  assumes "urljoin (base_url (config c)) url = Some full"
    and "0 \<le> retries (config c)" and "net 0 = Received r" and "status_code r = 400"
    and "response_json r =
           Some (PyDict [(''message'', PyStr ''Bad Request''), (''code'', PyStr ''VALIDATION_ERROR''),
                         (''details'', PyDict [(''field'', PyStr ''email'')])])"
  shows "fst (make_request c net accepts m url kw) =
           Inl (ApiErr \<lparr>message = PyStr ''Bad Request'', error_status = 400,
                         code = PyStr ''VALIDATION_ERROR'',
                         details =
                           PyDict [(''message'', PyStr ''Bad Request''),
                                   (''code'', PyStr ''VALIDATION_ERROR''),
                                   (''details'', PyDict [(''field'', PyStr ''email'')])]\<rparr>)
         \<and> sent (snd (make_request c net accepts m url kw)) = [outgoing c m full kw]"
  using first_attempt_stops [of c url full net r accepts m kw] assms
  by (simp add: ok_def error_of_response_def dict_get_def Let_def)

text \<open>The request of \<open>test_error_handling\<close>.\<close>

theorem C3_validation_error_witness:
  "urljoin (base_url (config test_client)) ''/error'' = Some ''https://api.example.com/error''
   \<and> fst (get test_client (always (Received (json_response 400 validation_text validation_body)))
          up_to_a_day ''/error'' PyNone) =
     Inl (ApiErr \<lparr>message = PyStr ''Bad Request'', error_status = 400,
                   code = PyStr ''VALIDATION_ERROR'', details = validation_body\<rparr>)
   \<and> sent (snd (get test_client (always (Received (json_response 400 validation_text validation_body)))
          up_to_a_day ''/error'' PyNone)) =
       [outgoing test_client ''GET'' ''https://api.example.com/error'' [(''params'', PyNone)]]"
proof -
  have j: "urljoin (base_url (config test_client)) ''/error'' = Some ''https://api.example.com/error''"
    by code_simp
  show ?thesis
    using C3_validation_error [OF j, of
        "always (Received (json_response 400 validation_text validation_body))"
        "json_response 400 validation_text validation_body" up_to_a_day "''GET''"
        "[(''params'', PyNone)]"] j
    by (simp add: get_def always_def json_response_def validation_body_def)
qed

text \<open>
  Claim C3 as stated fails: the details of the raised error are the whole body, which is
  not the value \<open>{"field": "email"}\<close> of its \<open>details\<close> key.
\<close>

theorem C3_validation_error_counterexample:
  "(case fst (get test_client (always (Received (json_response 400 validation_text validation_body)))
               up_to_a_day ''/error'' PyNone) of
      Inl (ApiErr e) \<Rightarrow>
        details e = validation_body \<and> details e \<noteq> PyDict [(''field'', PyStr ''email'')]
    | _ \<Rightarrow> False)"
  by code_simp

lemma skip_retried_attempts:
  assumes "list_all (\<lambda>j. retried c net j \<and> sleep_returns accepts (retry_delay (config c) * (j + 1)))
             [a..k - 1]"
    and "a \<le> k"
  shows "fst (request_loop c net accepts m u kw [a..n]) =
         fst (request_loop c net accepts m u kw [k..n])"
  using assms
proof (induction "nat (k - a)" arbitrary: a)
  case 0
  then show ?case by simp
next
  case (Suc d)
  then have lt: "a < k" by simp
  then have l: "[a..k - 1] = a # [a + 1..k - 1]" by (simp add: upto_first)
  have r: "retried c net a" and s: "sleep_returns accepts (retry_delay (config c) * (a + 1))"
    and rest: "list_all (\<lambda>j. retried c net j \<and> sleep_returns accepts (retry_delay (config c) * (j + 1)))
                 [a + 1..k - 1]"
    using Suc.prems(1) unfolding l by simp_all
  have ih: "fst (request_loop c net accepts m u kw [a + 1..n]) =
            fst (request_loop c net accepts m u kw [k..n])"
    using Suc.hyps(1) [of "a + 1"] Suc.hyps(2) rest lt by simp
  show ?case
  proof (cases "a \<le> n")
    case True
    then have ln: "[a..n] = a # [a + 1..n]" by (rule upto_first)
    show ?thesis unfolding ln using loop_retry [of c net a accepts m u kw, OF r s] ih by simp
  next
    case False
    then show ?thesis using lt by simp
  qed
qed

text \<open>
  Claim C5. When the response at which the loop stops has a status below 400, the call
  returns an envelope with \<open>success = True\<close>, the response's status code and headers, and
  as data the parsed body, or the raw text when \<open>json()\<close> raises. The response at which
  the loop stops is the one met by an attempt \<open>k\<close> that is performed: the path was
  resolved, and every earlier attempt was retried after its wait.
\<close>

theorem C5_success_envelope:
  assumes "reaches c net accepts url k" and "net (nat k) = Received r" and "status_code r < 400"
  shows "fst (make_request c net accepts m url kw) =
           Inr (Some \<lparr>data = (case response_json r of Some v \<Rightarrow> v
                                | None \<Rightarrow> PyStr (response_text r)),
                       status = status_code r,
                       headers = response_headers r,
                       success = True\<rparr>)"
proof -
  obtain full where j: "urljoin (base_url (config c)) url = Some full"
    using assms(1) by (auto simp: reaches_def)
  have k: "0 \<le> k" "k \<le> retries (config c)"
    and pre: "list_all (\<lambda>j. retried c net j \<and> sleep_returns accepts (retry_delay (config c) * (j + 1)))
                [0..k - 1]"
    using assms(1) by (simp_all add: reaches_def)
  have skip: "fst (request_loop c net accepts m full kw [0..retries (config c)]) =
              fst (request_loop c net accepts m full kw [k..retries (config c)])"
    using skip_retried_attempts [OF pre k(1)] .
  have l: "[k..retries (config c)] = k # [k + 1..retries (config c)]"
    using k(2) by (rule upto_first)
  have st: "status_code r < 500 \<or> retries (config c) \<le> k" using assms(3) by simp
  have okr: "ok r" using assms(3) by (simp add: ok_def)
  have "request_loop c net accepts m full kw (k # [k + 1..retries (config c)]) =
          (Inr (Some (envelope_of_response r)), attempt_events c m full kw)"
    using loop_stop_response [of net k r c accepts m full kw "[k + 1..retries (config c)]",
        OF assms(2) st] okr
    by (simp del: request_loop.simps)
  then show ?thesis
    using skip l by (simp add: make_request_resolved [OF j] envelope_of_response_def)
qed

text \<open>
  The request of \<open>test_authentication\<close> (status 200, body \<open>{"message": "success"}\<close>); a 503
  followed by a 200; and a 200 whose body is not JSON.
\<close>

theorem C5_success_envelope_witness:
  "fst (get test_client (always (Received (json_response 200 success_text success_body)))
          up_to_a_day ''/test'' PyNone) =
     Inr (Some \<lparr>data = PyDict [(''message'', PyStr ''success'')], status = 200,
                 headers = [(''Content-Type'', ''application/json'')], success = True\<rparr>)
   \<and> fst (get test_client
            (once_then (Received (text_response 503 ''Service Unavailable''))
                       (Received (json_response 200 success_text success_body)))
            up_to_a_day ''/test'' PyNone) =
     Inr (Some \<lparr>data = PyDict [(''message'', PyStr ''success'')], status = 200,
                 headers = [(''Content-Type'', ''application/json'')], success = True\<rparr>)
   \<and> fst (get test_client (always (Received (text_response 200 ''pong''))) up_to_a_day
            ''/ping'' PyNone) =
     Inr (Some \<lparr>data = PyStr ''pong'', status = 200,
                 headers = [(''Content-Type'', ''text/html'')], success = True\<rparr>)"
proof -
  have u1: "[0..(0::int)] = [0]" by code_simp
  have j1: "urljoin (base_url (config test_client)) ''/test'' \<noteq> None"
    and j2: "urljoin (base_url (config test_client)) ''/ping'' \<noteq> None"
    by code_simp+
  have r0: "reaches test_client (always (Received (json_response 200 success_text success_body)))
              up_to_a_day ''/test'' 0"
    using j1 by (simp add: reaches_def)
  have r1: "reaches test_client
              (once_then (Received (text_response 503 ''Service Unavailable''))
                         (Received (json_response 200 success_text success_body)))
              up_to_a_day ''/test'' 1"
    using j1
    by (simp add: reaches_def u1 retried_def once_then_def text_response_def
          sleep_returns_def up_to_a_day_def)
  have r2: "reaches test_client (always (Received (text_response 200 ''pong''))) up_to_a_day
              ''/ping'' 0"
    using j2 by (simp add: reaches_def)
  show ?thesis
    using C5_success_envelope [OF r0, of "json_response 200 success_text success_body"
            "''GET''" "[(''params'', PyNone)]"]
          C5_success_envelope [OF r1, of "json_response 200 success_text success_body"
            "''GET''" "[(''params'', PyNone)]"]
          C5_success_envelope [OF r2, of "text_response 200 ''pong''"
            "''GET''" "[(''params'', PyNone)]"]
    by (simp add: get_def always_def once_then_def json_response_def text_response_def
          success_body_def)
qed






section \<open>Claims about the configuration and the outgoing requests\<close>

lemma sent_request_loop:
  "list_all (\<lambda>rq. rq = outgoing c m u kw) (sent (snd (request_loop c net accepts m u kw as)))"
proof (induction as)
  case Nil
  then show ?case by simp
next
  case (Cons a as)
  then show ?case
    by (auto simp: Let_def time_sleep_def
             split: attempt_outcome.splits sum.splits prod.splits)
qed

lemma sent_make_request:
  "list_all (\<lambda>rq. urljoin (base_url (config c)) url = Some (request_url rq)
                 \<and> request_headers rq = session_headers (session c))
     (sent (snd (make_request c net accepts m url kw)))"
proof (cases "urljoin (base_url (config c)) url")
  case None
  then show ?thesis by (simp add: make_request_def)
next
  case (Some full)
  show ?thesis
    unfolding make_request_resolved [OF Some]
    using sent_request_loop [of c m full kw net accepts "[0..retries (config c)]"] Some
    by (auto simp: list_all_iff outgoing_def)
qed


lemma init_config:
  assumes "ApiClient_init fresh inp = Inr c"
  shows "(case inp of Structured cfg \<Rightarrow> config c = cfg
          | Raw d \<Rightarrow> ApiClientConfig_of_dict d = Inr (config c))"
  using assms
  by (auto simp: ApiClient_init_def Let_def split: config_input.splits sum.splits option.splits)

lemma of_dict_fields:
  assumes "ApiClientConfig_of_dict d = Inr cfg"
  shows "(case map_of d ''retries'' of None \<Rightarrow> retries cfg = 3 | Some v \<Rightarrow> v = PyInt (retries cfg))
         \<and> (case map_of d ''timeout'' of None \<Rightarrow> timeout cfg = 30
             | Some v \<Rightarrow> v = PyInt (timeout cfg))"
  using assms
  by (auto simp: ApiClientConfig_of_dict_def int_field_def split: option.splits pyval.splits)

lemma init_authorization:
  assumes "ApiClient_init fresh inp = Inr c" and "api_key (config c) = Some t" and "t \<noteq> []"
  shows "map_of (session_headers (session c)) ''Authorization'' = Some (''Bearer '' @ t)"
  using assms
  by (auto simp: ApiClient_init_def Let_def headers_update_def truthy_key_def update_conv'
           split: config_input.splits sum.splits option.splits if_splits)

text \<open>
  Claim C7, as amended. Construction checks no range: the client's configuration holds
  the \<open>retries\<close> and \<open>timeout\<close> that were supplied (for a raw mapping, the integer under
  that key, or the defaults 3 and 30 when the key is absent), so the invariant
  \<open>retries \<ge> 0\<close> and \<open>timeout > 0\<close> holds of the client exactly when it holds of the
  supplied values. \<open>set_api_key\<close> and \<open>set_base_url\<close> leave both fields unchanged.
\<close>

theorem C7_config_as_supplied:
  assumes "ApiClient_init fresh inp = Inr c"
  shows "(case inp of
            Structured cfg \<Rightarrow> retries (config c) = retries cfg \<and> timeout (config c) = timeout cfg
          | Raw d \<Rightarrow>
              (case map_of d ''retries'' of None \<Rightarrow> retries (config c) = 3
               | Some v \<Rightarrow> v = PyInt (retries (config c)))
              \<and> (case map_of d ''timeout'' of None \<Rightarrow> timeout (config c) = 30
                  | Some v \<Rightarrow> v = PyInt (timeout (config c))))
         \<and> retries (config (set_api_key c k)) = retries (config c)
         \<and> timeout (config (set_api_key c k)) = timeout (config c)
         \<and> retries (config (set_base_url c b)) = retries (config c)
         \<and> timeout (config (set_base_url c b)) = timeout (config c)"
proof -
  have "case inp of
          Structured cfg \<Rightarrow> retries (config c) = retries cfg \<and> timeout (config c) = timeout cfg
        | Raw d \<Rightarrow>
            (case map_of d ''retries'' of None \<Rightarrow> retries (config c) = 3
             | Some v \<Rightarrow> v = PyInt (retries (config c)))
            \<and> (case map_of d ''timeout'' of None \<Rightarrow> timeout (config c) = 30
                | Some v \<Rightarrow> v = PyInt (timeout (config c)))"
  proof (cases inp)
    case (Structured cfg)
    then show ?thesis using init_config [OF assms] by simp
  next
    case (Raw d)
    then have "ApiClientConfig_of_dict d = Inr (config c)" using init_config [OF assms] by simp
    then show ?thesis
      using Raw of_dict_fields [of d "config c"] by simp
  qed
  then show ?thesis by (simp add: set_api_key_def set_base_url_def)
qed

text \<open>The client of the tests: its mapping leaves \<open>retries\<close> and \<open>timeout\<close> to their defaults,
  and the setters keep them.\<close>

theorem C7_config_as_supplied_witness:
  "ApiClient_init library_session (Raw test_mapping) = Inr test_client
   \<and> retries (config test_client) = 3 \<and> timeout (config test_client) = 30
   \<and> retries (config (set_api_key test_client ''other-key'')) = 3
   \<and> timeout (config (set_api_key test_client ''other-key'')) = 30
   \<and> retries (config (set_base_url test_client ''https://staging.example.com'')) = 3
   \<and> timeout (config (set_base_url test_client ''https://staging.example.com'')) = 30"
proof -
  have i: "ApiClient_init library_session (Raw test_mapping) = Inr test_client"
    by code_simp
  have m: "map_of test_mapping ''retries'' = None" "map_of test_mapping ''timeout'' = None"
    by (simp_all add: test_mapping_def)
  show ?thesis
    using C7_config_as_supplied [OF i, of "''other-key''" "''https://staging.example.com''"] i m
    by simp
qed

text \<open>
  Claim C7 as stated fails: a raw mapping, and likewise a structured configuration, with
  \<open>retries = -1\<close> and \<open>timeout = 0\<close> is accepted, and the client holds these values.
\<close>

theorem C7_config_as_supplied_counterexample:
  "(case ApiClient_init library_session
           (Raw [(''base_url'', PyStr ''https://api.example.com''), (''retries'', PyInt (- 1)),
                 (''timeout'', PyInt 0)]) of
      Inr c \<Rightarrow> retries (config c) = - 1 \<and> timeout (config c) = 0
    | Inl e \<Rightarrow> False)
   \<and> (case ApiClient_init library_session
              (Structured (test_config\<lparr>timeout := 0, retries := - 1\<rparr>)) of
         Inr c \<Rightarrow> retries (config c) = - 1 \<and> timeout (config c) = 0
       | Inl e \<Rightarrow> False)"
  by code_simp

text \<open>
  Claim C8, as amended. For a client built with a non-empty credential token \<open>t\<close>, every
  request sent carries \<open>Authorization: Bearer t\<close>; and for any client and any string
  \<open>t\<close>, every request sent after \<open>set_api_key t\<close> carries \<open>Authorization: Bearer t\<close>, also
  when \<open>set_base_url\<close> is called in between.
\<close>

theorem C8_bearer_header:
  "(ApiClient_init fresh inp = Inr c \<and> api_key (config c) = Some t \<and> t \<noteq> [] \<longrightarrow>
      list_all (\<lambda>rq. authorization rq = Some (''Bearer '' @ t))
        (sent (snd (make_request c net accepts m url kw))))
   \<and> list_all (\<lambda>rq. authorization rq = Some (''Bearer '' @ t))
        (sent (snd (make_request (set_api_key c t) net accepts m url kw)))
   \<and> list_all (\<lambda>rq. authorization rq = Some (''Bearer '' @ t))
        (sent (snd (make_request (set_base_url (set_api_key c t) b) net accepts m url kw)))"
proof (intro conjI impI)
  assume h: "ApiClient_init fresh inp = Inr c \<and> api_key (config c) = Some t \<and> t \<noteq> []"
  then have a: "map_of (session_headers (session c)) ''Authorization'' = Some (''Bearer '' @ t)"
    using init_authorization [of fresh inp c t] by simp
  show "list_all (\<lambda>rq. authorization rq = Some (''Bearer '' @ t))
          (sent (snd (make_request c net accepts m url kw)))"
    using sent_make_request [of c url net accepts m kw] a
    by (auto simp: list_all_iff authorization_def)
next
  have a: "map_of (session_headers (session (set_api_key c t))) ''Authorization'' =
             Some (''Bearer '' @ t)"
    by (simp add: set_api_key_def update_conv')
  show "list_all (\<lambda>rq. authorization rq = Some (''Bearer '' @ t))
          (sent (snd (make_request (set_api_key c t) net accepts m url kw)))"
    using sent_make_request [of "set_api_key c t" url net accepts m kw] a
    by (auto simp: list_all_iff authorization_def)
next
  have a: "map_of (session_headers (session (set_base_url (set_api_key c t) b))) ''Authorization'' =
             Some (''Bearer '' @ t)"
    by (simp add: set_api_key_def set_base_url_def update_conv')
  show "list_all (\<lambda>rq. authorization rq = Some (''Bearer '' @ t))
          (sent (snd (make_request (set_base_url (set_api_key c t) b) net accepts m url kw)))"
    using sent_make_request [of "set_base_url (set_api_key c t) b" url net accepts m kw] a
    by (auto simp: list_all_iff authorization_def)
qed

text \<open>The request of \<open>test_authentication\<close>, and the same request after \<open>set_api_key\<close>.\<close>

theorem C8_bearer_header_witness:
  "ApiClient_init library_session (Raw test_mapping) = Inr test_client
   \<and> api_key (config test_client) = Some ''test-api-key''
   \<and> map authorization
        (sent (snd (make_request test_client
                      (always (Received (json_response 200 success_text success_body)))
                      up_to_a_day ''GET'' ''/test'' [(''params'', PyNone)]))) =
       [Some ''Bearer test-api-key'']
   \<and> map authorization
        (sent (snd (make_request (set_api_key test_client ''other-key'')
                      (always (Received (json_response 200 success_text success_body)))
                      up_to_a_day ''GET'' ''/test'' [(''params'', PyNone)]))) =
       [Some ''Bearer other-key'']"
proof -
  let ?net = "always (Received (json_response 200 success_text success_body))"
  have i: "ApiClient_init library_session (Raw test_mapping) = Inr test_client"
    by code_simp
  have k: "api_key (config test_client) = Some ''test-api-key''"
    by (simp add: test_client_def test_config_def)
  have s1: "length (sent (snd (make_request test_client ?net up_to_a_day ''GET'' ''/test''
              [(''params'', PyNone)]))) = 1"
    by code_simp
  have s2: "length (sent (snd (make_request (set_api_key test_client ''other-key'') ?net
              up_to_a_day ''GET'' ''/test'' [(''params'', PyNone)]))) = 1"
    by code_simp
  have single: "length xs = 1 \<Longrightarrow> list_all (\<lambda>rq. authorization rq = v) xs \<Longrightarrow>
                  map authorization xs = [v]" for xs :: "Request list" and v
    by (cases xs) simp_all
  have a1: "list_all (\<lambda>rq. authorization rq = Some (''Bearer '' @ ''test-api-key''))
              (sent (snd (make_request test_client ?net up_to_a_day ''GET'' ''/test''
                 [(''params'', PyNone)])))"
    using C8_bearer_header [of library_session "Raw test_mapping" test_client "''test-api-key''"
        ?net up_to_a_day "''GET''" "''/test''" "[(''params'', PyNone)]"] i k
    by simp
  have a2: "list_all (\<lambda>rq. authorization rq = Some (''Bearer '' @ ''other-key''))
              (sent (snd (make_request (set_api_key test_client ''other-key'') ?net
                 up_to_a_day ''GET'' ''/test'' [(''params'', PyNone)])))"
    using C8_bearer_header [of library_session "Raw test_mapping" test_client "''other-key''"
        ?net up_to_a_day "''GET''" "''/test''" "[(''params'', PyNone)]"]
    by simp
  show ?thesis
    using i k single [OF s1 a1] single [OF s2 a2] by simp
qed

text \<open>
  Claim C8 as stated fails for the empty token: \<open>if config.api_key:\<close> is false for \<open>''\<close>,
  no \<open>Authorization\<close> header is set, and the request goes out without one.
\<close>

theorem C8_bearer_header_counterexample:
  "(case ApiClient_init library_session (Structured (test_config\<lparr>api_key := Some ''''\<rparr>)) of
      Inr c \<Rightarrow>
        api_key (config c) = Some ''''
        \<and> map authorization
             (sent (snd (get c (always (Received (json_response 200 success_text success_body)))
                           up_to_a_day ''/test'' PyNone))) = [None]
    | Inl e \<Rightarrow> False)"
  by code_simp



section \<open>Claims about URL resolution\<close>

lemma slash_kept [simp]:
  "\<not> c0_control_or_space (CHR ''/'')" "\<not> unsafe_url_byte (CHR ''/'')"
  "\<not> is_ascii_alpha (CHR ''/'')"
  by (simp_all add: c0_control_or_space_def unsafe_url_byte_def is_ascii_alpha_def)

lemma before_first_rooted:
  "d \<noteq> CHR ''/'' \<Longrightarrow> before_first d (CHR ''/'' # s) = CHR ''/'' # before_first d s"
  by (simp add: before_first_def)

lemma urlsplit_rooted:
  assumes "take 1 (remove_unsafe rest) \<noteq> ''/''"
  shows "\<exists>p query fragment.
           urlsplit (CHR ''/'' # rest) bs =
             Some (remove_unsafe (strip_c0 bs), [], CHR ''/'' # p, query, fragment)"
proof -
  let ?r = "remove_unsafe rest"
  have u1: "remove_unsafe (lstrip_c0 (CHR ''/'' # rest)) = CHR ''/'' # ?r"
    by (simp add: remove_unsafe_def lstrip_c0_def)
  have no_netloc: "take 2 (CHR ''/'' # ?r) \<noteq> ''//''"
    using assms by (cases ?r) auto
  show ?thesis
    unfolding urlsplit_def u1 Let_def
    using no_netloc
    by (simp add: before_first_rooted split: prod.splits)
qed

lemma splitparams_rooted:
  "\<exists>p' params. splitparams (CHR ''/'' # p) = (CHR ''/'' # p', params)"
proof -
  let ?url = "CHR ''/'' # p"
  let ?k = "length ?url - 1 - length (takeWhile (\<lambda>c. c \<noteq> CHR ''/'') (rev ?url))"
  let ?tl = "drop ?k ?url"
  let ?i = "?k + length (before_first (CHR '';'') ?tl)"
  have i: "0 < ?i"
  proof (cases "?k = 0")
    case True
    then have "?tl = ?url" by simp
    then show ?thesis by (simp add: before_first_def)
  next
    case False
    then show ?thesis by simp
  qed
  then obtain j where j: "?i = Suc j" by (cases ?i) auto
  have "take ?i ?url = CHR ''/'' # take j p" unfolding j by simp
  then show ?thesis
    unfolding splitparams_def Let_def by auto
qed

lemma urlparse_rooted:
  assumes "take 1 (remove_unsafe rest) \<noteq> ''/''"
  shows "\<exists>p params query fragment.
           urlparse (CHR ''/'' # rest) bs =
             Some (remove_unsafe (strip_c0 bs), [], CHR ''/'' # p, params, query, fragment)"
proof -
  obtain p query fragment where
    s: "urlsplit (CHR ''/'' # rest) bs =
          Some (remove_unsafe (strip_c0 bs), [], CHR ''/'' # p, query, fragment)"
    using urlsplit_rooted [OF assms, of bs] by blast
  obtain p' params where sp: "splitparams (CHR ''/'' # p) = (CHR ''/'' # p', params)"
    using splitparams_rooted [of p] by blast
  show ?thesis
    unfolding urlparse_def s using sp by simp
qed

lemma relative_schemes:
  "list_all (\<lambda>bs. remove_unsafe (strip_c0 bs) = bs \<and> bs \<in> set uses_netloc) uses_relative"
  by code_simp

lemma relative_scheme_clean:
  assumes "bs \<in> set uses_relative"
  shows "remove_unsafe (strip_c0 bs) = bs" and "bs \<in> set uses_netloc"
  using assms relative_schemes by (auto simp: list_all_iff)

lemma urljoin_rooted:
  assumes "base \<noteq> []" and "bs \<in> set uses_relative"
    and "urlparse base '''' = Some (bs, bn, bp, bpar, bq, bf)"
    and "take 1 (remove_unsafe rest) \<noteq> ''/''"
  shows "\<exists>p params query fragment.
           urlparse (CHR ''/'' # rest) bs = Some (bs, [], CHR ''/'' # p, params, query, fragment)
           \<and> urljoin base (CHR ''/'' # rest) =
               Some (urlunparse (bs, bn, rooted_path (CHR ''/'' # p), params, query, fragment))"
proof -
  obtain p params query fragment where
    u: "urlparse (CHR ''/'' # rest) bs = Some (bs, [], CHR ''/'' # p, params, query, fragment)"
    using urlparse_rooted [OF assms(4), of bs] relative_scheme_clean(1) [OF assms(2)] by auto
  have "urljoin base (CHR ''/'' # rest) =
          Some (urlunparse (bs, bn, rooted_path (CHR ''/'' # p), params, query, fragment))"
    using assms(1,2) relative_scheme_clean(2) [OF assms(2)]
    by (simp add: urljoin_def assms(3) u rooted_path_def Let_def)
  then show ?thesis using u by blast
qed

lemma urlunsplit_prefix:
  assumes "bs \<noteq> []" and "bs \<in> set uses_netloc"
  shows "\<exists>suffix. urlunsplit (bs, bn, u, q, f) = (bs @ ''://'' @ bn) @ suffix"
proof -
  let ?u1 = "if u \<noteq> [] \<and> take 1 u \<noteq> ''/'' then CHR ''/'' # u else u"
  let ?u3 = "if q \<noteq> [] then ?u1 @ CHR ''?'' # q else ?u1"
  let ?u4 = "if f \<noteq> [] then ?u3 @ CHR ''#'' # f else ?u3"
  have "urlunsplit (bs, bn, u, q, f) = (bs @ ''://'' @ bn) @ ?u4"
    using assms by (simp add: urlunsplit_def Let_def)
  then show ?thesis by blast
qed

lemma urlunparse_prefix:
  assumes "bs \<noteq> []" and "bs \<in> set uses_netloc"
  shows "\<exists>suffix. urlunparse (bs, bn, u, ps, q, f) = (bs @ ''://'' @ bn) @ suffix"
  unfolding urlunparse_def using urlunsplit_prefix [OF assms] by simp

text \<open>
  Claim C10, as amended. Resolution is \<open>urljoin\<close>, not concatenation. Take two non-empty
  base addresses that \<open>urlparse\<close> accepts and reads with the same scheme \<open>bs\<close> and the same
  authority \<open>bn\<close>, the scheme being one \<open>urljoin\<close> resolves references for (\<open>http\<close>,
  \<open>https\<close> and the other members of \<open>uses_relative\<close>), and a request path that begins with
  \<open>/\<close> and whose next character, tabs, carriage returns and line feeds apart, is not \<open>/\<close>.
  Then \<open>urljoin\<close> returns, and returns the same URL for both bases: the path,
  parameters, query and fragment of the base are discarded. For a non-empty scheme the
  URL begins with \<open>bs://bn\<close>.
\<close>

theorem C10_rooted_path_discards_base_path:
  assumes "base \<noteq> []" and "base' \<noteq> []"
    and "urlparse base '''' = Some (bs, bn, bp, bpar, bq, bf)"
    and "urlparse base' '''' = Some (bs, bn, bp', bpar', bq', bf')"
    and "bs \<in> set uses_relative"
    and "take 1 (remove_unsafe rest) \<noteq> ''/''"
  shows "urljoin base (CHR ''/'' # rest) = urljoin base' (CHR ''/'' # rest)
         \<and> (\<exists>full. urljoin base (CHR ''/'' # rest) = Some full
                \<and> (bs \<noteq> [] \<longrightarrow> take (length (bs @ ''://'' @ bn)) full = bs @ ''://'' @ bn))"
proof -
  obtain p params query fragment where
    u: "urlparse (CHR ''/'' # rest) bs = Some (bs, [], CHR ''/'' # p, params, query, fragment)"
    and j: "urljoin base (CHR ''/'' # rest) =
              Some (urlunparse (bs, bn, rooted_path (CHR ''/'' # p), params, query, fragment))"
    using urljoin_rooted [OF assms(1) assms(5) assms(3) assms(6)] by blast
  obtain p' params' query' fragment' where
    u': "urlparse (CHR ''/'' # rest) bs = Some (bs, [], CHR ''/'' # p', params', query', fragment')"
    and j': "urljoin base' (CHR ''/'' # rest) =
              Some (urlunparse (bs, bn, rooted_path (CHR ''/'' # p'), params', query', fragment'))"
    using urljoin_rooted [OF assms(2) assms(5) assms(4) assms(6)] by blast
  have same: "urljoin base (CHR ''/'' # rest) = urljoin base' (CHR ''/'' # rest)"
    using j j' u u' by simp
  have pre: "take (length (bs @ ''://'' @ bn))
               (urlunparse (bs, bn, rooted_path (CHR ''/'' # p), params, query, fragment)) =
             bs @ ''://'' @ bn"
    if ne: "bs \<noteq> []"
  proof -
    obtain suffix where
      "urlunparse (bs, bn, rooted_path (CHR ''/'' # p), params, query, fragment) =
         (bs @ ''://'' @ bn) @ suffix"
      using urlunparse_prefix [OF ne relative_scheme_clean(2) [OF assms(5)]] by metis
    moreover have "take (length A) (A @ s) = A" for A s :: string by simp
    ultimately show ?thesis by (simp only:)
  qed
  have "\<exists>full. urljoin base (CHR ''/'' # rest) = Some full
          \<and> (bs \<noteq> [] \<longrightarrow> take (length (bs @ ''://'' @ bn)) full = bs @ ''://'' @ bn)"
    using j pre by blast
  then show ?thesis using same by blast
qed

text \<open>The example of the claim: against \<open>https://host/v1\<close> the path \<open>/users\<close> resolves as it
  does against \<open>https://host\<close>, to \<open>https://host/users\<close>.\<close>

theorem C10_rooted_path_witness:
  "urlparse ''https://host/v1'' '''' = Some (''https'', ''host'', ''/v1'', '''', '''', '''')
   \<and> urlparse ''https://host'' '''' = Some (''https'', ''host'', '''', '''', '''', '''')
   \<and> ''https'' \<in> set uses_relative
   \<and> take 1 (remove_unsafe ''users'') \<noteq> ''/''
   \<and> urljoin ''https://host/v1'' ''/users'' = urljoin ''https://host'' ''/users''
   \<and> urljoin ''https://host/v1'' ''/users'' = Some ''https://host/users''"
proof -
  have p: "urlparse ''https://host/v1'' '''' = Some (''https'', ''host'', ''/v1'', '''', '''', '''')"
    and p': "urlparse ''https://host'' '''' = Some (''https'', ''host'', '''', '''', '''', '''')"
    by code_simp+
  have r: "''https'' \<in> set uses_relative" by (simp add: uses_relative_def)
  have n: "take 1 (remove_unsafe ''users'') \<noteq> ''/''" by code_simp
  have j: "urljoin ''https://host'' ''/users'' = Some ''https://host/users''" by code_simp
  show ?thesis
    using C10_rooted_path_discards_base_path [OF _ _ p p' r n] p p' r n j
    by simp
qed

text \<open>
  Claim C10 as stated fails for paths that begin with \<open>/\<close> and go on with another \<open>/\<close>,
  at once or after a tab: such a path is a reference with an authority of its own, and
  the resolved URL keeps only the scheme of the base. A client whose base address
  is \<open>https://host/v1\<close> sends the request for \<open>//evil.example/users\<close> to the host
  \<open>evil.example\<close>.
\<close>

theorem C10_rooted_path_counterexample:
  "urlparse ''https://host/v1'' '''' = Some (''https'', ''host'', ''/v1'', '''', '''', '''')
   \<and> urljoin ''https://host/v1'' ''//evil.example/users'' = Some ''https://evil.example/users''
   \<and> urljoin ''https://host/v1'' [CHR ''/'', CHR 0x09, CHR ''/'', CHR ''e'', CHR ''/'', CHR ''u''] =
       Some ''https://e/u''
   \<and> map request_url
        (sent (snd (get (set_base_url test_client ''https://host/v1'')
                      (always (Received (json_response 200 success_text success_body)))
                      up_to_a_day ''//evil.example/users'' PyNone))) =
       [''https://evil.example/users'']"
  by code_simp

end
